theory Spec2Isabelle
  imports Complex_Main "HOL-Library.Multiset" "HOL-Library.Sublist"
begin

section \<open>Decimal numbers of the arithmetic library\<close>

text \<open>
  The script computes with the \<^verbatim>\<open>BigNumber\<close> type of bignumber.js, used with its
  default configuration (the script never calls \<^verbatim>\<open>BigNumber.config\<close>):
  \<^verbatim>\<open>DECIMAL_PLACES = 20\<close>, \<^verbatim>\<open>ROUNDING_MODE = ROUND_HALF_UP\<close>, \<^verbatim>\<open>POW_PRECISION = 0\<close>.
  A value is a finite decimal, an infinity or NaN. Finite values are kept as
  rationals (every finite decimal is one, and the operations below only produce
  finite decimals from finite decimals). The library's negative zero is identified
  with zero.
\<close>

datatype BigNumber = NaN | PosInf | NegInf | Fin rat

text \<open>
  \<^verbatim>\<open>ROUND_HALF_UP\<close>: to the nearest multiple of \<open>10\<^sup>-\<^sup>d\<^sup>p\<close>, a tie going away
  from zero.
\<close>

definition round_half_up :: "nat \<Rightarrow> rat \<Rightarrow> rat" where
  "round_half_up dp q =
     (if q < 0 then - (of_int \<lfloor>- q * 10 ^ dp + 1 / 2\<rfloor> / 10 ^ dp)
      else of_int \<lfloor>q * 10 ^ dp + 1 / 2\<rfloor> / 10 ^ dp)"

definition DECIMAL_PLACES :: nat where
  "DECIMAL_PLACES = 20"

fun minus_bn :: "BigNumber \<Rightarrow> BigNumber \<Rightarrow> BigNumber" where
  "minus_bn NaN _ = NaN"
| "minus_bn _ NaN = NaN"
| "minus_bn PosInf PosInf = NaN"
| "minus_bn NegInf NegInf = NaN"
| "minus_bn PosInf _ = PosInf"
| "minus_bn NegInf _ = NegInf"
| "minus_bn (Fin _) PosInf = NegInf"
| "minus_bn (Fin _) NegInf = PosInf"
| "minus_bn (Fin a) (Fin b) = Fin (a - b)"

definition sign_inf :: "bool \<Rightarrow> BigNumber" where
  "sign_inf positive = (if positive then PosInf else NegInf)"

fun times_bn :: "BigNumber \<Rightarrow> BigNumber \<Rightarrow> BigNumber" where
  "times_bn NaN _ = NaN"
| "times_bn _ NaN = NaN"
| "times_bn (Fin a) (Fin b) = Fin (a * b)"
| "times_bn (Fin a) PosInf = (if a = 0 then NaN else sign_inf (0 < a))"
| "times_bn (Fin a) NegInf = (if a = 0 then NaN else sign_inf (a < 0))"
| "times_bn PosInf (Fin b) = (if b = 0 then NaN else sign_inf (0 < b))"
| "times_bn NegInf (Fin b) = (if b = 0 then NaN else sign_inf (b < 0))"
| "times_bn PosInf PosInf = PosInf"
| "times_bn NegInf NegInf = PosInf"
| "times_bn PosInf NegInf = NegInf"
| "times_bn NegInf PosInf = NegInf"

text \<open>
  \<^verbatim>\<open>dividedBy\<close> rounds the quotient to \<^verbatim>\<open>DECIMAL_PLACES\<close> with the rounding mode;
  a non-zero value over zero is an infinity, zero over zero is NaN.
\<close>

fun dividedBy :: "BigNumber \<Rightarrow> BigNumber \<Rightarrow> BigNumber" where
  "dividedBy NaN _ = NaN"
| "dividedBy _ NaN = NaN"
| "dividedBy (Fin a) (Fin b) =
     (if b = 0 then (if a = 0 then NaN else sign_inf (0 < a))
      else Fin (round_half_up DECIMAL_PLACES (a / b)))"
| "dividedBy (Fin _) _ = Fin 0"
| "dividedBy PosInf (Fin b) = sign_inf (0 \<le> b)"
| "dividedBy NegInf (Fin b) = sign_inf (b < 0)"
| "dividedBy _ _ = NaN"

text \<open>\<^verbatim>\<open>x.gt(y)\<close> is false as soon as one side is NaN.\<close>

fun gt_bn :: "BigNumber \<Rightarrow> BigNumber \<Rightarrow> bool" where
  "gt_bn NaN _ = False"
| "gt_bn _ NaN = False"
| "gt_bn (Fin a) (Fin b) = (b < a)"
| "gt_bn PosInf y = (y \<noteq> PosInf)"
| "gt_bn NegInf _ = False"
| "gt_bn (Fin _) y = (y = NegInf)"

text \<open>
  \<^verbatim>\<open>x.pow(n)\<close> for a positive integer \<open>n\<close>: exact, since \<^verbatim>\<open>POW_PRECISION\<close> is 0.
\<close>

fun pow_bn :: "BigNumber \<Rightarrow> nat \<Rightarrow> BigNumber" where
  "pow_bn NaN _ = NaN"
| "pow_bn PosInf _ = PosInf"
| "pow_bn NegInf n = sign_inf (even n)"
| "pow_bn (Fin a) n = Fin (a ^ n)"

text \<open>\<^verbatim>\<open>x.decimalPlaces(dp)\<close> rounds a finite value with the rounding mode.\<close>

fun decimalPlaces :: "BigNumber \<Rightarrow> nat \<Rightarrow> BigNumber" where
  "decimalPlaces (Fin a) dp = Fin (round_half_up dp a)"
| "decimalPlaces x _ = x"

subsection \<open>Reading a decimal string\<close>

text \<open>
  \<^verbatim>\<open>new BigNumber(s)\<close> for a string in decimal notation, the form in which a
  subgraph serialises its \<^verbatim>\<open>BigDecimal\<close> fields: an optional minus sign, digits
  with an optional fraction part (or a fraction part alone), and an optional
  exponent. \<^verbatim>\<open>Infinity\<close> and \<^verbatim>\<open>-Infinity\<close> are read as such. A string that is
  not a number is NaN (the library is not in debug mode, so nothing throws). The
  other notations the library accepts (a leading plus sign, surrounding white
  space, a radix prefix) do not occur in such fields; they are not modelled and
  are read as NaN here. The properties below that depend on the value of a field
  state it as a hypothesis.
\<close>

definition digit_of :: "char \<Rightarrow> nat option" where
  "digit_of c =
     (let code = (of_char c :: nat)
      in if 48 \<le> code \<and> code \<le> 57 then Some (code - 48) else None)"

definition is_digit :: "char \<Rightarrow> bool" where
  "is_digit c = (digit_of c \<noteq> None)"

fun digits_value :: "nat \<Rightarrow> string \<Rightarrow> nat" where
  "digits_value acc [] = acc"
| "digits_value acc (c # cs) = digits_value (10 * acc + (case digit_of c of None \<Rightarrow> 0 | Some d \<Rightarrow> d)) cs"

definition all_digits :: "string \<Rightarrow> bool" where
  "all_digits s = (s \<noteq> [] \<and> list_all is_digit s)"

text \<open>The exponent part after the letter e: an optional sign and digits.\<close>

definition exponent_of :: "string \<Rightarrow> int option" where
  "exponent_of s =
     (case s of
        [] \<Rightarrow> None
      | c # cs \<Rightarrow>
          if c = CHR ''-'' then (if all_digits cs then Some (- int (digits_value 0 cs)) else None)
          else if c = CHR ''+'' then (if all_digits cs then Some (int (digits_value 0 cs)) else None)
          else if all_digits s then Some (int (digits_value 0 s)) else None)"

text \<open>The mantissa: digits, digits with a fraction part, or a fraction part alone.\<close>

definition mantissa_of :: "string \<Rightarrow> rat option" where
  "mantissa_of s =
     (let ip = takeWhile is_digit s; rest = dropWhile is_digit s in
      case rest of
        [] \<Rightarrow> if ip = [] then None else Some (of_nat (digits_value 0 ip))
      | c # fp \<Rightarrow>
          if c = CHR ''.'' \<and> list_all is_digit fp \<and> (ip \<noteq> [] \<or> fp \<noteq> [])
          then Some (of_nat (digits_value 0 (ip @ fp)) / 10 ^ length fp)
          else None)"

definition is_e :: "char \<Rightarrow> bool" where
  "is_e c = (c = CHR ''e'' \<or> c = CHR ''E'')"

definition unsigned_of :: "string \<Rightarrow> rat option" where
  "unsigned_of s =
     (let m = takeWhile (\<lambda>c. \<not> is_e c) s; rest = dropWhile (\<lambda>c. \<not> is_e c) s in
      case rest of
        [] \<Rightarrow> mantissa_of m
      | _ # ex \<Rightarrow>
          (case (mantissa_of m, exponent_of ex) of
             (Some q, Some k) \<Rightarrow> Some (if k < 0 then q / 10 ^ nat (- k) else q * 10 ^ nat k)
           | _ \<Rightarrow> None))"

definition BigNumber_of_string :: "string \<Rightarrow> BigNumber" where
  "BigNumber_of_string s =
     (if s = ''Infinity'' then PosInf
      else if s = ''-Infinity'' then NegInf
      else case s of
        [] \<Rightarrow> NaN
      | c # cs \<Rightarrow>
          if c = CHR ''-''
          then (case unsigned_of cs of None \<Rightarrow> NaN | Some q \<Rightarrow> Fin (- q))
          else (case unsigned_of s of None \<Rightarrow> NaN | Some q \<Rightarrow> Fin q))"

section \<open>The data of the script\<close>

text \<open>The chains of the SDK's \<^verbatim>\<open>ChainId\<close> enumeration.\<close>

datatype ChainId = BITGERT | DOGE | DOKEN | FUSE | XDC | BSC | CORE

text \<open>
  What a \<^verbatim>\<open>try\<close> block of the script can catch or rethrow. A JavaScript
  \<^verbatim>\<open>Error\<close> whose message is built from a template is kept with the values the
  template interpolates.
\<close>

datatype error =
    MissingBlockClient ChainId
  | RequestFailed string
  | TypeError
  | FailedToFetchBlockNumber int error
  | FailedToFetchLpAprData error
  | CannotFindModule

text \<open>A JavaScript number that is an integer or NaN (what \<^verbatim>\<open>parseInt\<close> returns).\<close>

type_synonym jsInteger = "int option"

record SingleFarmResponse =
  id_farm :: string
  reserveUSD :: string
  volumeUSD :: string

record FarmsResponse =
  farmsAtLatestBlock :: "SingleFarmResponse list"
  farmsOneWeekAgo :: "SingleFarmResponse list"

text \<open>
  An \<^verbatim>\<open>AprMap\<close> is a JavaScript object used as a dictionary. The script stores
  \<^verbatim>\<open>x.decimalPlaces(dp).toNumber()\<close>; the map of the model holds the decimal
  \<^verbatim>\<open>x.decimalPlaces(dp)\<close> that is handed to \<^verbatim>\<open>toNumber\<close>.
\<close>

type_synonym AprMap = "string \<rightharpoonup> BigNumber"

record BlockRow =
  number :: string

record VirtualPriceRow =
  virtualPrice :: string

record VirtualPriceResponse =
  virtualPriceAtLatestBlock :: "VirtualPriceRow list"
  virtualPriceOneDayAgo :: "VirtualPriceRow list"

record SerializedFarmConfig =
  pid :: "int option"
  lpSymbol :: string
  lpAddress :: string
  stableSwapAddress :: "string option"

text \<open>
  The collaborators the script imports or calls and that are not part of it:
  the table of block-indexing endpoints, the three GraphQL requests (each either
  rejects with an error or resolves with the rows selected by the query text),
  the per-chain module of farm definitions, and the two readings of the clock
  \<^verbatim>\<open>getUnixTime(sub(new Date(), ...))\<close>.
\<close>

record Env =
  BLOCKS_CLIENT_WITH_CHAIN :: "ChainId \<Rightarrow> string option"
  blocksRequest :: "string \<Rightarrow> int \<Rightarrow> int \<Rightarrow> error + BlockRow list"
  infoClientWithChain :: "ChainId \<Rightarrow> string list \<Rightarrow> jsInteger \<Rightarrow> error + FarmsResponse"
  stableSwapClient :: "string option \<Rightarrow> jsInteger \<Rightarrow> error + VirtualPriceResponse"
  farmsConstants :: "ChainId \<Rightarrow> error + SerializedFarmConfig list"
  weekAgoTimestamp :: int
  dayAgoTimestamp :: int

section \<open>APRs of a group of normal farms\<close>

text \<open>
  The numbers \<^verbatim>\<open>0.0025\<close> and \<^verbatim>\<open>52.1429\<close> are passed to \<^verbatim>\<open>times\<close> as JavaScript
  numbers; the library reads a number through its shortest decimal
  representation, which is the literal of the source.
\<close>

definition LP_HOLDERS_FEE :: BigNumber where
  "LP_HOLDERS_FEE = Fin (25 / 10000)"

definition WEEKS_IN_A_YEAR :: BigNumber where
  "WEEKS_IN_A_YEAR = Fin (521429 / 10000)"

definition lpFeesInAYear :: "SingleFarmResponse \<Rightarrow> SingleFarmResponse \<Rightarrow> BigNumber" where
  "lpFeesInAYear farm farmWeekAgo =
     (let volume7d = minus_bn (BigNumber_of_string (volumeUSD farm))
                              (BigNumber_of_string (volumeUSD farmWeekAgo));
          lpFees7d = times_bn volume7d LP_HOLDERS_FEE
      in times_bn lpFees7d WEEKS_IN_A_YEAR)"

text \<open>The value of \<^verbatim>\<open>lpApr\<close> at the end of one step of the \<^verbatim>\<open>reduce\<close>.\<close>

definition lpApr :: "SingleFarmResponse \<Rightarrow> SingleFarmResponse option \<Rightarrow> BigNumber" where
  "lpApr farm farmWeekAgo =
     (case farmWeekAgo of
        None \<Rightarrow> Fin 0
      | Some old \<Rightarrow>
          if gt_bn (lpFeesInAYear farm old) (Fin 0)
          then dividedBy (times_bn (lpFeesInAYear farm old) (Fin 100))
                         (BigNumber_of_string (reserveUSD farm))
          else Fin 0)"

definition aprReducer :: "SingleFarmResponse list \<Rightarrow> AprMap \<Rightarrow> SingleFarmResponse \<Rightarrow> AprMap" where
  "aprReducer weekAgo aprMap farm =
     aprMap(id_farm farm \<mapsto>
       decimalPlaces (lpApr farm (find (\<lambda>oldFarm. id_farm oldFarm = id_farm farm) weekAgo)) 2)"

definition aprsOfResponse :: "FarmsResponse \<Rightarrow> AprMap" where
  "aprsOfResponse r = foldl (aprReducer (farmsOneWeekAgo r)) Map.empty (farmsAtLatestBlock r)"

definition getAprsForFarmGroup :: "Env \<Rightarrow> string list \<Rightarrow> jsInteger \<Rightarrow> ChainId \<Rightarrow> error + AprMap" where
  "getAprsForFarmGroup env addresses blockWeekAgo chainId =
     (case infoClientWithChain env chainId addresses blockWeekAgo of
        Inl e \<Rightarrow> Inl (FailedToFetchLpAprData e)
      | Inr r \<Rightarrow> Inr (aprsOfResponse r))"

section \<open>Console and module state\<close>

text \<open>
  The lines the script writes to the console, and the module variable
  \<^verbatim>\<open>logged\<close> (initially false) of \<^verbatim>\<open>getFarmConfig\<close>.
\<close>

datatype logEntry =
    StableFarmError error
  | CannotGetFarmConfig error ChainId
  | FetchingFarmData nat

record World =
  logged :: bool
  console :: "logEntry list"

definition initialWorld :: World where
  "initialWorld = \<lparr>logged = False, console = []\<rparr>"

section \<open>Block resolver\<close>

text \<open>
  \<^verbatim>\<open>parseInt(s, 10)\<close>: leading white space is skipped, a sign is read, then the
  longest prefix of decimal digits; without a digit the result is NaN. White space
  is the ASCII part of the language's definition, and the integer is kept exact.
\<close>

definition is_space :: "char \<Rightarrow> bool" where
  "is_space c = (c = CHR '' '' \<or> c = CHR 0x09 \<or> c = CHR 0x0A \<or> c = CHR 0x0B
                 \<or> c = CHR 0x0C \<or> c = CHR 0x0D)"

definition parseInt10 :: "string \<Rightarrow> jsInteger" where
  "parseInt10 s =
     (let t = dropWhile is_space s;
          negative = (case t of [] \<Rightarrow> False | c # _ \<Rightarrow> c = CHR ''-'');
          u = (case t of [] \<Rightarrow> [] | c # cs \<Rightarrow> if c = CHR ''-'' \<or> c = CHR ''+'' then cs else t);
          ds = takeWhile is_digit u
      in if ds = [] then None
         else Some (if negative then - int (digits_value 0 ds) else int (digits_value 0 ds)))"

text \<open>The body of the \<^verbatim>\<open>try\<close> block: what it returns, or what it throws.\<close>

definition getBlockAtTimestamp_try :: "Env \<Rightarrow> int \<Rightarrow> ChainId \<Rightarrow> error + jsInteger" where
  "getBlockAtTimestamp_try env timestamp chainId =
     (case BLOCKS_CLIENT_WITH_CHAIN env chainId of
        None \<Rightarrow> Inl (MissingBlockClient chainId)
      | Some blockClient \<Rightarrow>
          if blockClient = [] then Inl (MissingBlockClient chainId)
          else
            (case blocksRequest env blockClient timestamp (timestamp + 600) of
               Inl e \<Rightarrow> Inl e
             | Inr blocks \<Rightarrow>
                 (case blocks of
                    [] \<Rightarrow> Inl TypeError
                  | b # _ \<Rightarrow> Inr (parseInt10 (number b)))))"

definition getBlockAtTimestamp :: "Env \<Rightarrow> int \<Rightarrow> ChainId \<Rightarrow> error + jsInteger" where
  "getBlockAtTimestamp env timestamp chainId =
     (case getBlockAtTimestamp_try env timestamp chainId of
        Inl e \<Rightarrow> Inl (FailedToFetchBlockNumber timestamp e)
      | Inr n \<Rightarrow> Inr n)"

section \<open>APR of a stable-swap farm\<close>

text \<open>\<^verbatim>\<open>rows[0]?.virtualPrice\<close>: undefined when the list is empty.\<close>

definition firstVirtualPrice :: "VirtualPriceRow list \<Rightarrow> string option" where
  "firstVirtualPrice rows = (case rows of [] \<Rightarrow> None | row # _ \<Rightarrow> Some (virtualPrice row))"

text \<open>\<^verbatim>\<open>new BigNumber(v)\<close> for a string or undefined; undefined is read as NaN.\<close>

definition BigNumber_new :: "string option \<Rightarrow> BigNumber" where
  "BigNumber_new v = (case v of None \<Rightarrow> NaN | Some s \<Rightarrow> BigNumber_of_string s)"

definition getAprsForStableFarm_try :: "Env \<Rightarrow> SerializedFarmConfig \<Rightarrow> ChainId \<Rightarrow> error + BigNumber" where
  "getAprsForStableFarm_try env stableFarm chainId =
     (case getBlockAtTimestamp env (dayAgoTimestamp env) chainId of
        Inl e \<Rightarrow> Inl e
      | Inr blockDayAgo \<Rightarrow>
          (case stableSwapClient env (stableSwapAddress stableFarm) blockDayAgo of
             Inl e \<Rightarrow> Inl e
           | Inr r \<Rightarrow>
               (let current = BigNumber_new (firstVirtualPrice (virtualPriceAtLatestBlock r));
                    prev = BigNumber_new (firstVirtualPrice (virtualPriceOneDayAgo r))
                in Inr (minus_bn (pow_bn (dividedBy current prev) 365) (Fin 1)))))"

text \<open>
  The \<^verbatim>\<open>catch\<close> block logs the error; the function then returns
  \<^verbatim>\<open>new BigNumber('0')\<close>.
\<close>

definition getAprsForStableFarm :: "Env \<Rightarrow> SerializedFarmConfig \<Rightarrow> ChainId \<Rightarrow> World \<Rightarrow> BigNumber \<times> World" where
  "getAprsForStableFarm env stableFarm chainId w =
     (case getAprsForStableFarm_try env stableFarm chainId of
        Inr apr \<Rightarrow> (apr, w)
      | Inl e \<Rightarrow> (Fin 0, w\<lparr>console := console w @ [StableFarmError e]\<rparr>))"

section \<open>Farm partitioner\<close>

record SplitFarmResult =
  normalFarms :: "SerializedFarmConfig list"
  stableFarms :: "SerializedFarmConfig list"

text \<open>The truth value of \<^verbatim>\<open>farm?.stableSwapAddress\<close>: a string that is not empty.\<close>

definition hasStableSwapAddress :: "SerializedFarmConfig \<Rightarrow> bool" where
  "hasStableSwapAddress farm =
     (case stableSwapAddress farm of None \<Rightarrow> False | Some a \<Rightarrow> a \<noteq> [])"

definition splitNormalAndStableFarmsReducer :: "SplitFarmResult \<Rightarrow> SerializedFarmConfig \<Rightarrow> SplitFarmResult" where
  "splitNormalAndStableFarmsReducer result farm =
     (if hasStableSwapAddress farm
      then \<lparr>normalFarms = normalFarms result, stableFarms = stableFarms result @ [farm]\<rparr>
      else \<lparr>normalFarms = normalFarms result @ [farm], stableFarms = stableFarms result\<rparr>)"

definition splitFarms :: "SerializedFarmConfig list \<Rightarrow> SplitFarmResult" where
  "splitFarms farmsConfig =
     foldl splitNormalAndStableFarmsReducer \<lparr>normalFarms = [], stableFarms = []\<rparr> farmsConfig"

section \<open>Configuration loader\<close>

definition getFarmConfig :: "Env \<Rightarrow> ChainId \<Rightarrow> World \<Rightarrow> SerializedFarmConfig list \<times> World" where
  "getFarmConfig env chainId w =
     (case farmsConstants env chainId of
        Inr farms \<Rightarrow> (filter (\<lambda>f. pid f \<noteq> None) farms, w)
      | Inl e \<Rightarrow>
          if \<not> logged w
          then ([], w\<lparr>console := console w @ [CannotGetFarmConfig e chainId], logged := True\<rparr>)
          else ([], w))"

section \<open>Orchestrator\<close>

text \<open>
  \<^verbatim>\<open>toLowerCase\<close> on the ASCII letters (LP addresses are hexadecimal strings).
\<close>

definition upperCaseLetters :: string where
  "upperCaseLetters = ''ABCDEFGHIJKLMNOPQRSTUVWXYZ''"

definition lowerCaseLetters :: string where
  "lowerCaseLetters = ''abcdefghijklmnopqrstuvwxyz''"

definition toLowerCase_char :: "char \<Rightarrow> char" where
  "toLowerCase_char c =
     (case map_of (zip upperCaseLetters lowerCaseLetters) c of None \<Rightarrow> c | Some l \<Rightarrow> l)"

definition toLowerCase :: "string \<Rightarrow> string" where
  "toLowerCase s = map toLowerCase_char s"

text \<open>lodash \<^verbatim>\<open>chunk(array, size)\<close>: consecutive pieces of the given length, the last one shorter.\<close>

function chunk :: "'a list \<Rightarrow> nat \<Rightarrow> 'a list list" where
  "chunk xs sz = (if sz = 0 \<or> xs = [] then [] else take sz xs # chunk (drop sz xs) sz)"
  by pat_completeness auto
termination
  by (relation "measure (\<lambda>(xs, sz). length xs)") auto

text \<open>
  The sequential \<^verbatim>\<open>for\<close> loop over the groups of addresses: the first group
  whose request fails ends the loop with its error.
\<close>

fun aprsForGroups :: "Env \<Rightarrow> string list list \<Rightarrow> jsInteger \<Rightarrow> ChainId \<Rightarrow> AprMap \<Rightarrow> error + AprMap" where
  "aprsForGroups env [] blockWeekAgo chainId allAprs = Inr allAprs"
| "aprsForGroups env (groupOfAddresses # groups) blockWeekAgo chainId allAprs =
     (case getAprsForFarmGroup env groupOfAddresses blockWeekAgo chainId of
        Inl e \<Rightarrow> Inl e
      | Inr aprs \<Rightarrow> aprsForGroups env groups blockWeekAgo chainId (allAprs ++ aprs))"

text \<open>
  \<^verbatim>\<open>Promise.all(stableFarms.map(...))\<close>: one result per farm, in the order of the
  farms; the console lines are taken in that order as well.
\<close>

fun stableAprsOf :: "Env \<Rightarrow> SerializedFarmConfig list \<Rightarrow> ChainId \<Rightarrow> World \<Rightarrow> BigNumber list \<times> World" where
  "stableAprsOf env [] chainId w = ([], w)"
| "stableAprsOf env (f # fs) chainId w =
     (let (apr, w1) = getAprsForStableFarm env f chainId w;
          (aprs, w2) = stableAprsOf env fs chainId w1
      in (apr # aprs, w2))"

definition stableAprsMap :: "SerializedFarmConfig list \<Rightarrow> BigNumber list \<Rightarrow> AprMap" where
  "stableAprsMap farms stableAprs =
     foldl (\<lambda>result (farm, apr). result(lpAddress farm \<mapsto> decimalPlaces apr 5))
       Map.empty (zip farms stableAprs)"

text \<open>
  The work for one chain. The result is the object handed to
  \<^verbatim>\<open>JSON.stringify\<close> for the file of the chain, or the error that rejects the
  promise of the chain.
\<close>

definition updateChain :: "Env \<Rightarrow> ChainId \<Rightarrow> World \<Rightarrow> (error + AprMap) \<times> World" where
  "updateChain env chainId w =
     (let (farmsConfig, w1) = getFarmConfig env chainId w;
          split = splitFarms farmsConfig;
          lowerCaseAddresses = map (\<lambda>farm. toLowerCase (lpAddress farm)) (normalFarms split);
          w2 = w1\<lparr>console := console w1 @ [FetchingFarmData (length lowerCaseAddresses)]\<rparr>;
          addressesInGroups = chunk lowerCaseAddresses 30
      in case getBlockAtTimestamp env (weekAgoTimestamp env) chainId of
           Inl e \<Rightarrow> (Inl e, w2)
         | Inr blockWeekAgo \<Rightarrow>
             (case aprsForGroups env addressesInGroups blockWeekAgo chainId Map.empty of
                Inl e \<Rightarrow> (Inl e, w2)
              | Inr allAprs \<Rightarrow>
                  if stableFarms split \<noteq> []
                  then (let (stableAprs, w3) = stableAprsOf env (stableFarms split) chainId w2
                        in (Inr (allAprs ++ stableAprsMap (stableFarms split) stableAprs), w3))
                  else (Inr allAprs, w2)))"

definition FETCH_CHAIN_ID :: "ChainId list" where
  "FETCH_CHAIN_ID = [BITGERT]"

fun updateChains :: "Env \<Rightarrow> ChainId list \<Rightarrow> World \<Rightarrow> (error + AprMap) list \<times> World" where
  "updateChains env [] w = ([], w)"
| "updateChains env (chainId # others) w =
     (let (r, w1) = updateChain env chainId w;
          (rs, w2) = updateChains env others w1
      in (r # rs, w2))"

definition fetchAndUpdateLPsAPR :: "Env \<Rightarrow> World \<Rightarrow> (error + AprMap) list \<times> World" where
  "fetchAndUpdateLPsAPR env w = updateChains env FETCH_CHAIN_ID w"

section \<open>The subgraphs as the queries of the script read them\<close>

text \<open>
  A subgraph is a table of entities; \<^verbatim>\<open>where\<close> keeps the matching rows,
  \<^verbatim>\<open>first\<close> bounds their number, and a request either reaches the table or
  fails. The block-indexing query asks for the first block with
  \<^verbatim>\<open>timestamp_gt\<close> and \<^verbatim>\<open>timestamp_lt\<close>, selecting its number.
\<close>

record BlockEntity = BlockRow +
  timestamp :: int

definition blocksQuery :: "BlockEntity list \<Rightarrow> int \<Rightarrow> int \<Rightarrow> BlockRow list" where
  "blocksQuery index timestampGreater timestampLess =
     map (\<lambda>b. \<lparr>number = number b\<rparr>)
       (take 1 (filter (\<lambda>b. timestampGreater < timestamp b \<and> timestamp b < timestampLess) index))"

definition blocksSubgraph :: "(string \<Rightarrow> error + BlockEntity list) \<Rightarrow> string \<Rightarrow> int \<Rightarrow> int \<Rightarrow> error + BlockRow list" where
  "blocksSubgraph net url timestampGreater timestampLess =
     (case net url of
        Inl e \<Rightarrow> Inl e
      | Inr index \<Rightarrow> Inr (blocksQuery index timestampGreater timestampLess))"


text \<open>
  The pairs query \<^verbatim>\<open>pairs(first: 30, where: { id_in: $addresses })\<close>, at the
  latest block and at a given block. \<open>None\<close> for \<open>first\<close> is a query without the
  bound.
\<close>

record PairsIndex =
  latestPairs :: "SingleFarmResponse list"
  pairsAtBlock :: "jsInteger \<Rightarrow> SingleFarmResponse list"

definition pairsQuery :: "nat option \<Rightarrow> string list \<Rightarrow> SingleFarmResponse list \<Rightarrow> SingleFarmResponse list" where
  "pairsQuery first addresses pairs =
     (let hits = filter (\<lambda>p. id_farm p \<in> set addresses) pairs
      in case first of None \<Rightarrow> hits | Some n \<Rightarrow> take n hits)"

definition farmsBulk :: "nat option \<Rightarrow> PairsIndex \<Rightarrow> string list \<Rightarrow> jsInteger \<Rightarrow> FarmsResponse" where
  "farmsBulk first index addresses blockWeekAgo =
     \<lparr>farmsAtLatestBlock = pairsQuery first addresses (latestPairs index),
      farmsOneWeekAgo = pairsQuery first addresses (pairsAtBlock index blockWeekAgo)\<rparr>"

text \<open>
  The entry an address gets from the whole tables of a pairs subgraph: the last row
  of the latest table with that id decides, read against the first row of the older
  table with that id.
\<close>

definition entryOf :: "PairsIndex \<Rightarrow> jsInteger \<Rightarrow> string \<Rightarrow> BigNumber option" where
  "entryOf index blockWeekAgo a =
     (case find (\<lambda>f. id_farm f = a) (rev (latestPairs index)) of
        None \<Rightarrow> None
      | Some f \<Rightarrow>
          Some (decimalPlaces
            (lpApr f (find (\<lambda>w. id_farm w = a) (pairsAtBlock index blockWeekAgo))) 2))"

section \<open>Repeated loading of the configuration\<close>

text \<open>
  The state after a sequence of calls of \<^verbatim>\<open>getFarmConfig\<close>, and the number of
  console lines that report a configuration that could not be loaded.
\<close>

fun configCalls :: "(Env \<times> ChainId) list \<Rightarrow> World \<Rightarrow> World" where
  "configCalls [] w = w"
| "configCalls ((env, chainId) # calls) w = configCalls calls (snd (getFarmConfig env chainId w))"

fun isCannotGetFarmConfig :: "logEntry \<Rightarrow> bool" where
  "isCannotGetFarmConfig (CannotGetFarmConfig _ _) = True"
| "isCannotGetFarmConfig _ = False"

definition configErrorsLogged :: "World \<Rightarrow> nat" where
  "configErrorsLogged w = length (filter isCannotGetFarmConfig (console w))"

section \<open>Example inputs\<close>

text \<open>An environment in which every request fails and no endpoint is configured.\<close>

definition offline :: Env where
  "offline =
     \<lparr>BLOCKS_CLIENT_WITH_CHAIN = (\<lambda>_. None),
      blocksRequest = (\<lambda>_ _ _. Inl (RequestFailed ''offline'')),
      infoClientWithChain = (\<lambda>_ _ _. Inl (RequestFailed ''offline'')),
      stableSwapClient = (\<lambda>_ _. Inl (RequestFailed ''offline'')),
      farmsConstants = (\<lambda>_. Inl CannotFindModule),
      weekAgoTimestamp = 1700000000,
      dayAgoTimestamp = 1700518400\<rparr>"

text \<open>
  A response with three farms: one without volume in the week, one that is not in
  the older snapshot, one with volume.
\<close>

definition three_farms :: FarmsResponse where
  "three_farms =
     \<lparr>farmsAtLatestBlock =
        [\<lparr>id_farm = ''0xaa'', reserveUSD = ''2000'', volumeUSD = ''1500.5''\<rparr>,
         \<lparr>id_farm = ''0xbb'', reserveUSD = ''100'', volumeUSD = ''7''\<rparr>,
         \<lparr>id_farm = ''0xcc'', reserveUSD = ''50000'', volumeUSD = ''120000''\<rparr>],
      farmsOneWeekAgo =
        [\<lparr>id_farm = ''0xaa'', reserveUSD = ''1900'', volumeUSD = ''1500.5''\<rparr>,
         \<lparr>id_farm = ''0xcc'', reserveUSD = ''40000'', volumeUSD = ''100000''\<rparr>]\<rparr>"

definition env_three_farms :: Env where
  "env_three_farms = offline\<lparr>infoClientWithChain := (\<lambda>_ _ _. Inr three_farms)\<rparr>"

text \<open>
  Farm definitions: two normal farms (the second with the mixed-case address of the
  configuration), a stable-swap farm, and a farm whose stable-swap address is the
  empty string.
\<close>

definition farm_ice_usdt :: SerializedFarmConfig where
  "farm_ice_usdt =
     \<lparr>pid = Some 0, lpSymbol = ''ICE-USDT LP'',
      lpAddress = ''0xf1a996efba43dcbd7945d2b91fa78420d9c23bf0'', stableSwapAddress = None\<rparr>"

definition farm_wcore_usdt :: SerializedFarmConfig where
  "farm_wcore_usdt =
     \<lparr>pid = Some 1, lpSymbol = ''WCORE-USDT LP'',
      lpAddress = ''0x5ebAE3A840fF34B107D637c8Ed07C3D1D2017178'', stableSwapAddress = None\<rparr>"

definition farm_stable :: SerializedFarmConfig where
  "farm_stable =
     \<lparr>pid = Some 2, lpSymbol = ''USDT-USDC LP'',
      lpAddress = ''0x0eb9036cbE0f052386f36170c6b07eF0a0E3f710'',
      stableSwapAddress = Some ''0x9E6d21E759A7A288b80eef94E4737D313D31c13f''\<rparr>"

definition farm_empty_address :: SerializedFarmConfig where
  "farm_empty_address =
     \<lparr>pid = Some 3, lpSymbol = ''ICE-WCORE LP'',
      lpAddress = ''0x58c1b429d0ffdb4407396ae8118c58fed5489847'', stableSwapAddress = Some []\<rparr>"

text \<open>A block-indexing endpoint for one chain, with three blocks.\<close>

definition block_table :: "BlockEntity list" where
  "block_table =
     [\<lparr>number = ''12344'', timestamp = 1699999999\<rparr>,
      \<lparr>number = ''12345'', timestamp = 1700000003\<rparr>,
      \<lparr>number = ''12346'', timestamp = 1700000006\<rparr>]"

definition example_net :: "string \<Rightarrow> error + BlockEntity list" where
  "example_net url =
     (if url = ''https://blocks.example/bitgert'' then Inr block_table
      else Inl (RequestFailed ''unreachable''))"

definition env_blocks :: Env where
  "env_blocks =
     offline\<lparr>BLOCKS_CLIENT_WITH_CHAIN :=
               (\<lambda>c. if c = BITGERT then Some ''https://blocks.example/bitgert'' else None),
             blocksRequest := blocksSubgraph example_net\<rparr>"

text \<open>
  Responses of the stable-swap subgraph: the virtual prices 1.02 and 1.01, the
  prices 10 and 3, and a pool that did not exist one day ago.
\<close>

definition two_prices :: VirtualPriceResponse where
  "two_prices =
     \<lparr>virtualPriceAtLatestBlock = [\<lparr>virtualPrice = ''1.02''\<rparr>],
      virtualPriceOneDayAgo = [\<lparr>virtualPrice = ''1.01''\<rparr>]\<rparr>"


definition no_price_day_ago :: VirtualPriceResponse where
  "no_price_day_ago =
     \<lparr>virtualPriceAtLatestBlock = [\<lparr>virtualPrice = ''1.02''\<rparr>],
      virtualPriceOneDayAgo = []\<rparr>"

text \<open>
  A complete environment: the configuration of the chain holds a normal farm and a
  stable-swap farm, the block endpoint answers, the pairs subgraph answers with
  \<open>three_farms\<close>, and the stable-swap subgraph with the given response.
\<close>

definition env_with_prices :: "VirtualPriceResponse \<Rightarrow> Env" where
  "env_with_prices prices =
     env_blocks\<lparr>infoClientWithChain := (\<lambda>_ _ _. Inr three_farms),
                stableSwapClient := (\<lambda>_ _. Inr prices),
                farmsConstants := (\<lambda>_. Inr [farm_ice_usdt, farm_stable]),
                weekAgoTimestamp := 1700000000,
                dayAgoTimestamp := 1700000000\<rparr>"



text \<open>
  A pairs subgraph with three pairs, and a list of 31 addresses: one more than a
  request may ask for.
\<close>

definition pairs_index :: PairsIndex where
  "pairs_index =
     \<lparr>latestPairs =
        [\<lparr>id_farm = ''0x01'', reserveUSD = ''2000'', volumeUSD = ''1500.5''\<rparr>,
         \<lparr>id_farm = ''0x31'', reserveUSD = ''50000'', volumeUSD = ''120000''\<rparr>,
         \<lparr>id_farm = ''0x99'', reserveUSD = ''100'', volumeUSD = ''7''\<rparr>],
      pairsAtBlock = (\<lambda>_.
        [\<lparr>id_farm = ''0x01'', reserveUSD = ''1900'', volumeUSD = ''1500.5''\<rparr>,
         \<lparr>id_farm = ''0x31'', reserveUSD = ''40000'', volumeUSD = ''100000''\<rparr>])\<rparr>"

definition env_pairs :: Env where
  "env_pairs =
     offline\<lparr>infoClientWithChain :=
       (\<lambda>_ addresses block. Inr (farmsBulk (Some 30) pairs_index addresses block))\<rparr>"

definition addresses_31 :: "string list" where
  "addresses_31 =
     [''0x01'', ''0x02'', ''0x03'', ''0x04'', ''0x05'', ''0x06'', ''0x07'', ''0x08'', ''0x09'', ''0x10'',
      ''0x11'', ''0x12'', ''0x13'', ''0x14'', ''0x15'', ''0x16'', ''0x17'', ''0x18'', ''0x19'', ''0x20'',
      ''0x21'', ''0x22'', ''0x23'', ''0x24'', ''0x25'', ''0x26'', ''0x27'', ''0x28'', ''0x29'', ''0x30'',
      ''0x31'']"

text \<open>
  A complete environment whose pairs subgraph knows the two normal farms under
  their lower-case addresses.
\<close>

definition lp_index :: PairsIndex where
  "lp_index =
     \<lparr>latestPairs =
        [\<lparr>id_farm = ''0xf1a996efba43dcbd7945d2b91fa78420d9c23bf0'', reserveUSD = ''2000'',
           volumeUSD = ''1500.5''\<rparr>,
         \<lparr>id_farm = ''0x5ebae3a840ff34b107d637c8ed07c3d1d2017178'', reserveUSD = ''50000'',
           volumeUSD = ''120000''\<rparr>],
      pairsAtBlock = (\<lambda>_.
        [\<lparr>id_farm = ''0x5ebae3a840ff34b107d637c8ed07c3d1d2017178'', reserveUSD = ''40000'',
           volumeUSD = ''100000''\<rparr>])\<rparr>"

definition env_subgraphs :: Env where
  "env_subgraphs =
     env_blocks\<lparr>infoClientWithChain :=
                  (\<lambda>_ addresses block. Inr (farmsBulk (Some 30) lp_index addresses block)),
                stableSwapClient := (\<lambda>_ _. Inr two_prices),
                farmsConstants := (\<lambda>_. Inr [farm_ice_usdt, farm_wcore_usdt, farm_stable]),
                weekAgoTimestamp := 1700000000,
                dayAgoTimestamp := 1700000000\<rparr>"

section \<open>Properties of the normal-farm calculator\<close>

text \<open>
  The entry of an address after the \<^verbatim>\<open>reduce\<close> is decided by the last row of
  the latest snapshot with that id (a later row overwrites an earlier one) and by
  the first row of the older snapshot with that id (\<^verbatim>\<open>find\<close>).
\<close>

lemma foldl_aprReducer_lookup:
  "foldl (aprReducer old) m latest a =
     (case find (\<lambda>f. id_farm f = a) (rev latest) of
        None \<Rightarrow> m a
      | Some f \<Rightarrow> Some (decimalPlaces (lpApr f (find (\<lambda>w. id_farm w = a) old)) 2))"
proof (induction latest rule: rev_induct)
  case Nil
  show ?case by simp
next
  case (snoc x xs)
  show ?case
  proof (cases "id_farm x = a")
    case True
    then show ?thesis by (simp add: aprReducer_def)
  next
    case False
    with snoc show ?thesis by (simp add: aprReducer_def)
  qed
qed

lemma aprsOfResponse_lookup:
  "aprsOfResponse r a =
     (case find (\<lambda>f. id_farm f = a) (rev (farmsAtLatestBlock r)) of
        None \<Rightarrow> None
      | Some f \<Rightarrow>
          Some (decimalPlaces (lpApr f (find (\<lambda>w. id_farm w = a) (farmsOneWeekAgo r))) 2))"
  by (simp add: aprsOfResponse_def foldl_aprReducer_lookup)

lemma find_Some_set: "find P xs = Some x \<Longrightarrow> x \<in> set xs \<and> P x"
  by (induction xs) (auto split: if_splits)

lemma dom_aprsOfResponse: "dom (aprsOfResponse r) = id_farm ` set (farmsAtLatestBlock r)"
proof (rule set_eqI)
  fix a
  show "a \<in> dom (aprsOfResponse r) \<longleftrightarrow> a \<in> id_farm ` set (farmsAtLatestBlock r)"
  proof (cases "find (\<lambda>f. id_farm f = a) (rev (farmsAtLatestBlock r))")
    case None
    then have "a \<notin> dom (aprsOfResponse r)"
      by (simp add: aprsOfResponse_lookup domIff)
    moreover from None have "a \<notin> id_farm ` set (farmsAtLatestBlock r)"
      by (auto simp: find_None_iff)
    ultimately show ?thesis by simp
  next
    case (Some f)
    then have "f \<in> set (farmsAtLatestBlock r) \<and> id_farm f = a"
      using find_Some_set [of "\<lambda>f. id_farm f = a" "rev (farmsAtLatestBlock r)" f] by simp
    with Some show ?thesis
      by (auto simp: aprsOfResponse_lookup domIff)
  qed
qed

lemmas parse_defs =
  BigNumber_of_string_def unsigned_of_def mantissa_of_def exponent_of_def all_digits_def
  is_e_def is_digit_def digit_of_def

lemma lpFeesInAYear_Fin:
  assumes "BigNumber_of_string (volumeUSD farm) = Fin vL"
    and "BigNumber_of_string (volumeUSD old) = Fin vW"
  shows "lpFeesInAYear farm old = Fin ((vL - vW) * (25 / 10000) * (521429 / 10000))"
  using assms by (simp add: lpFeesInAYear_def LP_HOLDERS_FEE_def WEEKS_IN_A_YEAR_def)

lemma round_half_up_0: "round_half_up dp 0 = 0"
  unfolding round_half_up_def by (simp add: floor_eq_iff)

text \<open>
  Claim C2. A farm of the latest snapshot that is not in the snapshot of one week ago,
  or whose annualised fees (the volume of the week times 0.0025 times 52.1429) are
  zero or negative, has the entry 0 in the result: the key is present and its value
  is 0. The row of the latest snapshot that decides the entry of an address is the
  last one with that id; the row of the older snapshot is the first one with that id.
\<close>

theorem zero_apr_when_new_or_without_fees:
  assumes request: "infoClientWithChain env chainId addresses blockWeekAgo = Inr r"
    and result: "getAprsForFarmGroup env addresses blockWeekAgo chainId = Inr aprs"
    and latest: "find (\<lambda>f. id_farm f = a) (rev (farmsAtLatestBlock r)) = Some farm"
    and older: "find (\<lambda>w. id_farm w = a) (farmsOneWeekAgo r) = None
       \<or> (find (\<lambda>w. id_farm w = a) (farmsOneWeekAgo r) = Some old
             \<and> BigNumber_of_string (volumeUSD farm) = Fin vL
             \<and> BigNumber_of_string (volumeUSD old) = Fin vW
             \<and> (vL - vW) * (25 / 10000) * (521429 / 10000) \<le> 0)"
  shows "aprs a = Some (Fin 0)"
proof -
  from request result have aprs: "aprs = aprsOfResponse r"
    by (simp add: getAprsForFarmGroup_def)
  have "lpApr farm (find (\<lambda>w. id_farm w = a) (farmsOneWeekAgo r)) = Fin 0"
    using older
  proof
    assume "find (\<lambda>w. id_farm w = a) (farmsOneWeekAgo r) = None"
    then show ?thesis by (simp add: lpApr_def)
  next
    assume "find (\<lambda>w. id_farm w = a) (farmsOneWeekAgo r) = Some old
             \<and> BigNumber_of_string (volumeUSD farm) = Fin vL
             \<and> BigNumber_of_string (volumeUSD old) = Fin vW
             \<and> (vL - vW) * (25 / 10000) * (521429 / 10000) \<le> 0"
    then have old: "find (\<lambda>w. id_farm w = a) (farmsOneWeekAgo r) = Some old"
      and vL: "BigNumber_of_string (volumeUSD farm) = Fin vL"
      and vW: "BigNumber_of_string (volumeUSD old) = Fin vW"
      and fees: "(vL - vW) * (25 / 10000) * (521429 / 10000) \<le> 0"
      by simp_all
    from fees have "\<not> gt_bn (lpFeesInAYear farm old) (Fin 0)"
      by (simp add: lpFeesInAYear_Fin [OF vL vW] not_less)
    with old show ?thesis by (simp add: lpApr_def)
  qed
  with latest show ?thesis
    by (simp add: aprs aprsOfResponse_lookup round_half_up_0)
qed

theorem zero_apr_when_new_or_without_fees_witness:
  "infoClientWithChain env_three_farms BITGERT [''0xaa'', ''0xbb'', ''0xcc''] (Some 100) = Inr three_farms
   \<and> getAprsForFarmGroup env_three_farms [''0xaa'', ''0xbb'', ''0xcc''] (Some 100) BITGERT
        = Inr (aprsOfResponse three_farms)
   \<and> find (\<lambda>f. id_farm f = ''0xbb'') (rev (farmsAtLatestBlock three_farms))
        = Some \<lparr>id_farm = ''0xbb'', reserveUSD = ''100'', volumeUSD = ''7''\<rparr>
   \<and> find (\<lambda>w. id_farm w = ''0xbb'') (farmsOneWeekAgo three_farms) = None
   \<and> aprsOfResponse three_farms ''0xbb'' = Some (Fin 0)
   \<and> find (\<lambda>f. id_farm f = ''0xaa'') (rev (farmsAtLatestBlock three_farms))
        = Some \<lparr>id_farm = ''0xaa'', reserveUSD = ''2000'', volumeUSD = ''1500.5''\<rparr>
   \<and> find (\<lambda>w. id_farm w = ''0xaa'') (farmsOneWeekAgo three_farms)
        = Some \<lparr>id_farm = ''0xaa'', reserveUSD = ''1900'', volumeUSD = ''1500.5''\<rparr>
   \<and> BigNumber_of_string ''1500.5'' = Fin (15005 / 10)
   \<and> (15005 / 10 - 15005 / 10) * (25 / 10000) * (521429 / 10000) \<le> (0::rat)
   \<and> aprsOfResponse three_farms ''0xaa'' = Some (Fin 0)"
proof -
  let ?addresses = "[''0xaa'', ''0xbb'', ''0xcc'']"
  have request: "infoClientWithChain env_three_farms BITGERT ?addresses (Some 100) = Inr three_farms"
    by (simp add: env_three_farms_def offline_def)
  have result: "getAprsForFarmGroup env_three_farms ?addresses (Some 100) BITGERT
      = Inr (aprsOfResponse three_farms)"
    by (simp add: getAprsForFarmGroup_def request)
  have latest_bb: "find (\<lambda>f. id_farm f = ''0xbb'') (rev (farmsAtLatestBlock three_farms))
      = Some \<lparr>id_farm = ''0xbb'', reserveUSD = ''100'', volumeUSD = ''7''\<rparr>"
    by (simp add: three_farms_def)
  have older_bb: "find (\<lambda>w. id_farm w = ''0xbb'') (farmsOneWeekAgo three_farms) = None"
    by (simp add: three_farms_def)
  have latest_aa: "find (\<lambda>f. id_farm f = ''0xaa'') (rev (farmsAtLatestBlock three_farms))
      = Some \<lparr>id_farm = ''0xaa'', reserveUSD = ''2000'', volumeUSD = ''1500.5''\<rparr>"
    by (simp add: three_farms_def)
  have older_aa: "find (\<lambda>w. id_farm w = ''0xaa'') (farmsOneWeekAgo three_farms)
      = Some \<lparr>id_farm = ''0xaa'', reserveUSD = ''1900'', volumeUSD = ''1500.5''\<rparr>"
    by (simp add: three_farms_def)
  have volume: "BigNumber_of_string ''1500.5'' = Fin (15005 / 10)"
    by (simp add: parse_defs)
  have fees: "(15005 / 10 - 15005 / 10) * (25 / 10000) * (521429 / 10000) \<le> (0::rat)"
    by simp
  have bb: "aprsOfResponse three_farms ''0xbb'' = Some (Fin 0)"
    using zero_apr_when_new_or_without_fees [OF request result latest_bb] older_bb by simp
  have aa: "aprsOfResponse three_farms ''0xaa'' = Some (Fin 0)"
    using zero_apr_when_new_or_without_fees [OF request result latest_aa,
        where old = "\<lparr>id_farm = ''0xaa'', reserveUSD = ''1900'', volumeUSD = ''1500.5''\<rparr>"
          and vL = "15005 / 10" and vW = "15005 / 10"]
      older_aa volume fees
    by simp
  from request result latest_bb older_bb bb latest_aa older_aa volume fees aa
  show ?thesis by (simp only: simp_thms)
qed

text \<open>
  Claim C9. The keys of the result are exactly the ids of the rows returned for the
  latest block: a requested address for which no row came back has no entry at all.
\<close>

theorem apr_keys_are_latest_snapshot_ids:
  assumes request: "infoClientWithChain env chainId addresses blockWeekAgo = Inr r"
    and result: "getAprsForFarmGroup env addresses blockWeekAgo chainId = Inr aprs"
  shows "dom aprs = id_farm ` set (farmsAtLatestBlock r)
     \<and> (\<forall>a \<in> set addresses. a \<notin> id_farm ` set (farmsAtLatestBlock r) \<longrightarrow> aprs a = None)"
proof -
  from request result have "aprs = aprsOfResponse r"
    by (simp add: getAprsForFarmGroup_def)
  then have "dom aprs = id_farm ` set (farmsAtLatestBlock r)"
    by (simp add: dom_aprsOfResponse)
  then show ?thesis by (auto simp: domIff)
qed

theorem apr_keys_are_latest_snapshot_ids_witness:
  "infoClientWithChain env_three_farms BITGERT [''0xaa'', ''0xbb'', ''0xcc'', ''0xdd''] (Some 100)
      = Inr three_farms
   \<and> getAprsForFarmGroup env_three_farms [''0xaa'', ''0xbb'', ''0xcc'', ''0xdd''] (Some 100) BITGERT
        = Inr (aprsOfResponse three_farms)
   \<and> dom (aprsOfResponse three_farms) = {''0xaa'', ''0xbb'', ''0xcc''}
   \<and> aprsOfResponse three_farms ''0xdd'' = None"
proof -
  let ?addresses = "[''0xaa'', ''0xbb'', ''0xcc'', ''0xdd'']"
  have request: "infoClientWithChain env_three_farms BITGERT ?addresses (Some 100) = Inr three_farms"
    by (simp add: env_three_farms_def offline_def)
  have result: "getAprsForFarmGroup env_three_farms ?addresses (Some 100) BITGERT
      = Inr (aprsOfResponse three_farms)"
    by (simp add: getAprsForFarmGroup_def request)
  have ids: "id_farm ` set (farmsAtLatestBlock three_farms) = {''0xaa'', ''0xbb'', ''0xcc''}"
    by (simp add: three_farms_def)
  from apr_keys_are_latest_snapshot_ids [OF request result]
  have "dom (aprsOfResponse three_farms) = {''0xaa'', ''0xbb'', ''0xcc''}"
    and "aprsOfResponse three_farms ''0xdd'' = None"
    by (simp_all add: ids)
  with request result show ?thesis by (simp only: simp_thms)
qed

lemma foldl_splitReducer:
  "foldl splitNormalAndStableFarmsReducer acc farms =
     \<lparr>normalFarms = normalFarms acc @ filter (\<lambda>f. \<not> hasStableSwapAddress f) farms,
      stableFarms = stableFarms acc @ filter hasStableSwapAddress farms\<rparr>"
  by (induction farms arbitrary: acc) (simp_all add: splitNormalAndStableFarmsReducer_def)

lemma mset_filter_partition: "mset (filter (\<lambda>x. \<not> P x) xs) + mset (filter P xs) = mset xs"
  by (induction xs) simp_all

text \<open>
  Claim C6. Folding \<^verbatim>\<open>splitNormalAndStableFarmsReducer\<close> over a list of farms puts
  every farm in exactly one of the two groups (as multisets the groups add up to
  the input, and no farm is in both), each group keeps the order of the input, and
  a farm whose \<^verbatim>\<open>stableSwapAddress\<close> is a non-empty string is in the stable group
  and not in the normal one.
\<close>

theorem split_is_an_order_preserving_partition:
  fixes farms :: "SerializedFarmConfig list"
  defines "result \<equiv> foldl splitNormalAndStableFarmsReducer \<lparr>normalFarms = [], stableFarms = []\<rparr> farms"
  shows "normalFarms result = filter (\<lambda>f. \<not> hasStableSwapAddress f) farms
     \<and> stableFarms result = filter hasStableSwapAddress farms
     \<and> mset (normalFarms result) + mset (stableFarms result) = mset farms
     \<and> set (normalFarms result) \<inter> set (stableFarms result) = {}
     \<and> subseq (normalFarms result) farms
     \<and> subseq (stableFarms result) farms
     \<and> (\<forall>f \<in> set farms. \<forall>a. stableSwapAddress f = Some a \<and> a \<noteq> []
           \<longrightarrow> f \<in> set (stableFarms result) \<and> f \<notin> set (normalFarms result))"
proof -
  have normal: "normalFarms result = filter (\<lambda>f. \<not> hasStableSwapAddress f) farms"
    and stable: "stableFarms result = filter hasStableSwapAddress farms"
    by (simp_all add: result_def foldl_splitReducer)
  have "mset (normalFarms result) + mset (stableFarms result) = mset farms"
    by (simp only: normal stable mset_filter_partition)
  moreover have "set (normalFarms result) \<inter> set (stableFarms result) = {}"
    by (auto simp: normal stable)
  moreover have "subseq (normalFarms result) farms" "subseq (stableFarms result) farms"
    by (simp_all add: normal stable)
  moreover have "\<forall>f \<in> set farms. \<forall>a. stableSwapAddress f = Some a \<and> a \<noteq> []
           \<longrightarrow> f \<in> set (stableFarms result) \<and> f \<notin> set (normalFarms result)"
    by (auto simp: normal stable hasStableSwapAddress_def)
  ultimately show ?thesis using normal stable by blast
qed

theorem split_is_an_order_preserving_partition_witness:
  "farm_stable \<in> set [farm_ice_usdt, farm_stable, farm_empty_address]
   \<and> stableSwapAddress farm_stable = Some ''0x9E6d21E759A7A288b80eef94E4737D313D31c13f''
   \<and> ''0x9E6d21E759A7A288b80eef94E4737D313D31c13f'' \<noteq> []
   \<and> farm_stable \<in> set (stableFarms (foldl splitNormalAndStableFarmsReducer
         \<lparr>normalFarms = [], stableFarms = []\<rparr> [farm_ice_usdt, farm_stable, farm_empty_address]))
   \<and> farm_stable \<notin> set (normalFarms (foldl splitNormalAndStableFarmsReducer
         \<lparr>normalFarms = [], stableFarms = []\<rparr> [farm_ice_usdt, farm_stable, farm_empty_address]))
   \<and> foldl splitNormalAndStableFarmsReducer
         \<lparr>normalFarms = [], stableFarms = []\<rparr> [farm_ice_usdt, farm_stable, farm_empty_address]
       = \<lparr>normalFarms = [farm_ice_usdt, farm_empty_address], stableFarms = [farm_stable]\<rparr>"
proof -
  let ?farms = "[farm_ice_usdt, farm_stable, farm_empty_address]"
  let ?result = "foldl splitNormalAndStableFarmsReducer \<lparr>normalFarms = [], stableFarms = []\<rparr> ?farms"
  have member: "farm_stable \<in> set ?farms"
    by simp
  have address: "stableSwapAddress farm_stable = Some ''0x9E6d21E759A7A288b80eef94E4737D313D31c13f''"
    by (simp add: farm_stable_def)
  have nonempty: "''0x9E6d21E759A7A288b80eef94E4737D313D31c13f'' \<noteq> []"
    by simp
  note partition = split_is_an_order_preserving_partition [of ?farms]
  from partition member address nonempty
  have placed: "farm_stable \<in> set (stableFarms ?result) \<and> farm_stable \<notin> set (normalFarms ?result)"
    by blast
  have kinds: "\<not> hasStableSwapAddress farm_ice_usdt" "hasStableSwapAddress farm_stable"
      "\<not> hasStableSwapAddress farm_empty_address"
    by (simp_all add: hasStableSwapAddress_def farm_ice_usdt_def farm_stable_def
        farm_empty_address_def)
  from partition kinds
  have groups: "?result = \<lparr>normalFarms = [farm_ice_usdt, farm_empty_address], stableFarms = [farm_stable]\<rparr>"
    by simp
  from member address nonempty placed groups show ?thesis
    by (simp only: simp_thms)
qed

lemma getFarmConfig_log_invariant:
  assumes "configErrorsLogged w \<le> 1" and "logged w \<or> configErrorsLogged w = 0"
  shows "configErrorsLogged (snd (getFarmConfig env chainId w)) \<le> 1
     \<and> (logged (snd (getFarmConfig env chainId w))
          \<or> configErrorsLogged (snd (getFarmConfig env chainId w)) = 0)"
  using assms
  by (cases "farmsConstants env chainId")
     (auto simp: getFarmConfig_def configErrorsLogged_def)

lemma configCalls_log_invariant:
  "configErrorsLogged w \<le> 1 \<Longrightarrow> logged w \<or> configErrorsLogged w = 0 \<Longrightarrow>
   configErrorsLogged (configCalls calls w) \<le> 1"
proof (induction calls arbitrary: w)
  case Nil
  then show ?case by simp
next
  case (Cons call calls)
  obtain env chainId where call: "call = (env, chainId)" by (cases call)
  let ?w = "snd (getFarmConfig env chainId w)"
  from getFarmConfig_log_invariant [OF Cons.prems, of env chainId]
  have "configErrorsLogged ?w \<le> 1" and "logged ?w \<or> configErrorsLogged ?w = 0"
    by simp_all
  then have "configErrorsLogged (configCalls calls ?w) \<le> 1"
    by (rule Cons.IH)
  then show ?case by (simp add: call)
qed

text \<open>
  Claim C8. When the module of farm definitions of a chain cannot be loaded,
  \<^verbatim>\<open>getFarmConfig\<close> returns the empty list; it writes the error to the console
  only if the flag \<^verbatim>\<open>logged\<close> is not yet set, and sets it. Over any sequence of
  calls from the initial state of the module, at most one such line is written.
\<close>

theorem config_load_failure_is_caught_and_logged_once:
  assumes "farmsConstants env chainId = Inl e"
  shows "fst (getFarmConfig env chainId w) = []
     \<and> snd (getFarmConfig env chainId w) =
         (if logged w then w
          else w\<lparr>console := console w @ [CannotGetFarmConfig e chainId], logged := True\<rparr>)
     \<and> configErrorsLogged (configCalls calls initialWorld) \<le> 1"
proof -
  have "configErrorsLogged (configCalls calls initialWorld) \<le> 1"
    by (rule configCalls_log_invariant) (simp_all add: configErrorsLogged_def initialWorld_def)
  with assms show ?thesis by (simp add: getFarmConfig_def)
qed

theorem config_load_failure_is_caught_and_logged_once_witness:
  "farmsConstants offline BITGERT = Inl CannotFindModule
   \<and> fst (getFarmConfig offline BITGERT initialWorld) = []
   \<and> snd (getFarmConfig offline BITGERT initialWorld)
       = \<lparr>logged = True, console = [CannotGetFarmConfig CannotFindModule BITGERT]\<rparr>
   \<and> configCalls [(offline, BITGERT), (offline, CORE), (offline, BITGERT)] initialWorld
       = \<lparr>logged = True, console = [CannotGetFarmConfig CannotFindModule BITGERT]\<rparr>
   \<and> configErrorsLogged (configCalls [(offline, BITGERT), (offline, CORE), (offline, BITGERT)] initialWorld) \<le> 1"
proof -
  have failure: "farmsConstants offline BITGERT = Inl CannotFindModule"
    by (simp add: offline_def)
  note caught = config_load_failure_is_caught_and_logged_once [OF failure, of initialWorld
      "[(offline, BITGERT), (offline, CORE), (offline, BITGERT)]"]
  have empty: "fst (getFarmConfig offline BITGERT initialWorld) = []"
    by (rule caught [THEN conjunct1])
  have first_call: "snd (getFarmConfig offline BITGERT initialWorld)
       = \<lparr>logged = True, console = [CannotGetFarmConfig CannotFindModule BITGERT]\<rparr>"
    using caught [THEN conjunct2, THEN conjunct1] by (simp add: initialWorld_def)
  have calls: "configCalls [(offline, BITGERT), (offline, CORE), (offline, BITGERT)] initialWorld
       = \<lparr>logged = True, console = [CannotGetFarmConfig CannotFindModule BITGERT]\<rparr>"
    by (simp add: getFarmConfig_def offline_def initialWorld_def)
  have once: "configErrorsLogged
      (configCalls [(offline, BITGERT), (offline, CORE), (offline, BITGERT)] initialWorld) \<le> 1"
    by (rule caught [THEN conjunct2, THEN conjunct2])
  show ?thesis by (intro conjI; fact)
qed




section \<open>Stable farms and the orchestrator: auxiliary facts\<close>

declare chunk.simps [simp del]


text \<open>The value a stable farm gets does not depend on the console.\<close>

lemma getAprsForStableFarm_fst:
  "fst (getAprsForStableFarm env f chainId w) =
     (case getAprsForStableFarm_try env f chainId of Inr apr \<Rightarrow> apr | Inl _ \<Rightarrow> Fin 0)"
  by (simp add: getAprsForStableFarm_def split: sum.split)

lemma stableAprsOf_fst:
  "fst (stableAprsOf env fs chainId w) =
     map (\<lambda>f. case getAprsForStableFarm_try env f chainId of Inr apr \<Rightarrow> apr | Inl _ \<Rightarrow> Fin 0) fs"
proof (induction fs arbitrary: w)
  case Nil
  show ?case by simp
next
  case (Cons f fs)
  show ?case
    by (simp add: split_def Let_def Cons.IH getAprsForStableFarm_fst)
qed

lemma stableAprsMap_lookup:
  "stableAprsMap fs (map g fs) a =
     (case find (\<lambda>f. lpAddress f = a) (rev fs) of
        None \<Rightarrow> None
      | Some f \<Rightarrow> Some (decimalPlaces (g f) 5))"
proof (induction fs rule: rev_induct)
  case Nil
  show ?case by (simp add: stableAprsMap_def)
next
  case (snoc f fs)
  then show ?case by (simp add: stableAprsMap_def)
qed


lemma updateChain_result:
  assumes "updateChain env chainId w = (Inr allAprs, w')"
  shows "\<exists>blockWeekAgo normalAprs.
     getBlockAtTimestamp env (weekAgoTimestamp env) chainId = Inr blockWeekAgo
     \<and> aprsForGroups env
          (chunk (map (\<lambda>farm. toLowerCase (lpAddress farm))
                    (normalFarms (splitFarms (fst (getFarmConfig env chainId w))))) 30)
          blockWeekAgo chainId Map.empty = Inr normalAprs
     \<and> allAprs = normalAprs ++
          stableAprsMap (stableFarms (splitFarms (fst (getFarmConfig env chainId w))))
            (map (\<lambda>f. case getAprsForStableFarm_try env f chainId of Inr apr \<Rightarrow> apr | Inl _ \<Rightarrow> Fin 0)
               (stableFarms (splitFarms (fst (getFarmConfig env chainId w)))))"
proof -
  have empty: "stableAprsMap [] [] = Map.empty"
    by (simp add: stableAprsMap_def)
  from assms show ?thesis
    unfolding updateChain_def
    by (auto simp: split_def Let_def stableAprsOf_fst empty split: sum.splits if_splits)
qed


section \<open>Rounding and powers\<close>





section \<open>The example environment\<close>

lemma day_ago_block:
  "getBlockAtTimestamp (env_with_prices prices) (dayAgoTimestamp (env_with_prices prices)) BITGERT = Inr (Some 12345)"
  by (simp add: getBlockAtTimestamp_def getBlockAtTimestamp_try_def env_with_prices_def env_blocks_def
        offline_def blocksSubgraph_def blocksQuery_def example_net_def block_table_def
        parseInt10_def is_space_def is_digit_def digit_of_def)






lemma example_response:
  "stableSwapClient (env_with_prices prices) address blockDayAgo = Inr prices"
  by (simp add: env_with_prices_def env_blocks_def offline_def)

section \<open>Properties of the stable-swap calculator\<close>




text \<open>
  Claim C5 at a pool that did not exist one day ago: the request succeeds and the
  list of older prices is empty. Nothing is thrown, so nothing is caught or logged,
  and the function returns NaN instead of 0; rounding to 5 decimal places keeps NaN.
\<close>

theorem stable_apr_without_price_is_NaN:
  "stableSwapClient (env_with_prices no_price_day_ago) (stableSwapAddress farm_stable) (Some 12345)
      = Inr no_price_day_ago
   \<and> virtualPriceOneDayAgo no_price_day_ago = []
   \<and> getAprsForStableFarm (env_with_prices no_price_day_ago) farm_stable BITGERT initialWorld
      = (NaN, initialWorld)
   \<and> decimalPlaces NaN 5 = NaN"
proof -
  have "getAprsForStableFarm (env_with_prices no_price_day_ago) farm_stable BITGERT initialWorld
      = (NaN, initialWorld)"
    by (simp add: getAprsForStableFarm_def getAprsForStableFarm_try_def day_ago_block
        example_response no_price_day_ago_def firstVirtualPrice_def BigNumber_new_def parse_defs)
  then show ?thesis
    by (simp add: example_response no_price_day_ago_def)
qed

text \<open>A failure inside the \<^verbatim>\<open>try\<close> block is logged and gives 0.\<close>

lemma stable_apr_error_is_logged:
  assumes "getAprsForStableFarm_try env farm chainId = Inl e"
  shows "getAprsForStableFarm env farm chainId w = (Fin 0, w\<lparr>console := console w @ [StableFarmError e]\<rparr>)"
  using assms by (simp add: getAprsForStableFarm_def)

section \<open>The APR formula of a normal farm\<close>





section \<open>Requests in groups of 30 addresses\<close>

lemma chunk_Nil: "chunk [] n = []"
  by (simp add: chunk.simps)

lemma chunk_step: "0 < n \<Longrightarrow> xs \<noteq> [] \<Longrightarrow> chunk xs n = take n xs # chunk (drop n xs) n"
  by (subst chunk.simps) simp

lemma chunk_covers: "0 < n \<Longrightarrow> \<Union> (set ` set (chunk xs n)) = set xs"
proof (induction xs n rule: chunk.induct)
  case (1 xs n)
  show ?case
  proof (cases "xs = []")
    case True
    then show ?thesis by (simp add: chunk_Nil)
  next
    case False
    with 1 have "\<Union> (set ` set (chunk (drop n xs) n)) = set (drop n xs)"
      by simp
    moreover have "set (take n xs) \<union> set (drop n xs) = set xs"
      by (metis append_take_drop_id set_append)
    ultimately show ?thesis
      using False "1.prems" by (simp add: chunk_step)
  qed
qed

lemma chunk_lengths: "g \<in> set (chunk xs n) \<Longrightarrow> length g \<le> n"
proof (induction xs n arbitrary: g rule: chunk.induct)
  case (1 xs n)
  show ?case
  proof (cases "n = 0 \<or> xs = []")
    case True
    with "1.prems" show ?thesis by (simp add: chunk.simps)
  next
    case False
    with "1.prems" have "g = take n xs \<or> g \<in> set (chunk (drop n xs) n)"
      by (simp add: chunk_step)
    with 1 False show ?thesis by auto
  qed
qed

text \<open>The rows a query keeps for an address are those of the whole table.\<close>

lemma find_id_in_filter:
  "find (\<lambda>p. id_farm p = a) (filter (\<lambda>p. id_farm p \<in> S) xs) =
     (if a \<in> S then find (\<lambda>p. id_farm p = a) xs else None)"
  by (induction xs) auto

text \<open>With distinct ids, a group of at most \<open>n\<close> addresses never reaches the bound \<open>n\<close>.\<close>

lemma pairsQuery_not_truncated:
  assumes "distinct (map id_farm pairs)" and "length addresses \<le> n"
  shows "pairsQuery (Some n) addresses pairs = pairsQuery None addresses pairs"
proof -
  let ?hits = "filter (\<lambda>p. id_farm p \<in> set addresses) pairs"
  have "distinct (map id_farm ?hits)"
    using assms(1) by (rule distinct_map_filter)
  then have "length ?hits = card (id_farm ` set ?hits)"
    by (metis distinct_card length_map set_map)
  also have "\<dots> \<le> card (set addresses)"
    by (rule card_mono) auto
  also have "\<dots> \<le> length addresses"
    by (rule card_length)
  finally have "length ?hits \<le> n"
    using assms(2) by simp
  then show ?thesis by (simp add: pairsQuery_def)
qed

lemma aprs_unbounded:
  "aprsOfResponse (farmsBulk None index addresses blockWeekAgo) =
     (\<lambda>a. if a \<in> set addresses then entryOf index blockWeekAgo a else None)"
  by (rule ext)
     (simp add: aprsOfResponse_lookup farmsBulk_def pairsQuery_def rev_filter
        find_id_in_filter entryOf_def split: option.split)

lemma group_of_bounded_size:
  assumes client: "infoClientWithChain env chainId =
      (\<lambda>addresses block. Inr (farmsBulk (Some n) index addresses block))"
    and latest: "distinct (map id_farm (latestPairs index))"
    and older: "distinct (map id_farm (pairsAtBlock index blockWeekAgo))"
    and size: "length addresses \<le> n"
  shows "getAprsForFarmGroup env addresses blockWeekAgo chainId =
     Inr (\<lambda>a. if a \<in> set addresses then entryOf index blockWeekAgo a else None)"
proof -
  have "farmsBulk (Some n) index addresses blockWeekAgo = farmsBulk None index addresses blockWeekAgo"
    by (simp add: farmsBulk_def pairsQuery_not_truncated [OF latest size]
        pairsQuery_not_truncated [OF older size])
  then show ?thesis
    by (simp add: getAprsForFarmGroup_def client aprs_unbounded)
qed

lemma groups_of_bounded_size:
  assumes client: "infoClientWithChain env chainId =
      (\<lambda>addresses block. Inr (farmsBulk (Some n) index addresses block))"
    and latest: "distinct (map id_farm (latestPairs index))"
    and older: "distinct (map id_farm (pairsAtBlock index blockWeekAgo))"
    and sizes: "\<forall>g \<in> set groups. length g \<le> n"
  shows "aprsForGroups env groups blockWeekAgo chainId allAprs =
     Inr (allAprs ++ (\<lambda>a. if a \<in> \<Union> (set ` set groups) then entryOf index blockWeekAgo a else None))"
  using sizes
proof (induction groups arbitrary: allAprs)
  case Nil
  have "(\<lambda>a. None) = Map.empty" by simp
  then show ?case by simp
next
  case (Cons g groups)
  let ?entry = "entryOf index blockWeekAgo"
  from Cons.prems have g: "length g \<le> n" and rest: "\<forall>g \<in> set groups. length g \<le> n"
    by simp_all
  have merged: "(\<lambda>a. if a \<in> set g then ?entry a else None) ++
        (\<lambda>a. if a \<in> \<Union> (set ` set groups) then ?entry a else None) =
      (\<lambda>a. if a \<in> \<Union> (set ` set (g # groups)) then ?entry a else None)"
    by (rule ext) (auto simp: map_add_def split: option.splits)
  have "aprsForGroups env (g # groups) blockWeekAgo chainId allAprs =
      aprsForGroups env groups blockWeekAgo chainId
        (allAprs ++ (\<lambda>a. if a \<in> set g then ?entry a else None))"
    by (simp add: group_of_bounded_size [OF client latest older g])
  also have "\<dots> = Inr ((allAprs ++ (\<lambda>a. if a \<in> set g then ?entry a else None)) ++
      (\<lambda>a. if a \<in> \<Union> (set ` set groups) then ?entry a else None))"
    by (rule Cons.IH [OF rest])
  also have "(allAprs ++ (\<lambda>a. if a \<in> set g then ?entry a else None)) ++
      (\<lambda>a. if a \<in> \<Union> (set ` set groups) then ?entry a else None) =
      allAprs ++ (\<lambda>a. if a \<in> \<Union> (set ` set (g # groups)) then ?entry a else None)"
    by (simp only: map_add_assoc [symmetric] merged)
  finally show ?case .
qed

lemma chunked_groups:
  assumes client: "infoClientWithChain env chainId =
      (\<lambda>addresses block. Inr (farmsBulk (Some 30) index addresses block))"
    and latest: "distinct (map id_farm (latestPairs index))"
    and older: "distinct (map id_farm (pairsAtBlock index blockWeekAgo))"
  shows "aprsForGroups env (chunk addresses 30) blockWeekAgo chainId Map.empty =
     Inr (\<lambda>a. if a \<in> set addresses then entryOf index blockWeekAgo a else None)"
proof -
  have sizes: "\<forall>g \<in> set (chunk addresses 30). length g \<le> 30"
    by (simp add: chunk_lengths)
  have "aprsForGroups env (chunk addresses 30) blockWeekAgo chainId Map.empty =
      Inr (Map.empty ++
        (\<lambda>a. if a \<in> \<Union> (set ` set (chunk addresses 30)) then entryOf index blockWeekAgo a else None))"
    by (rule groups_of_bounded_size [OF client latest older sizes])
  also have "\<Union> (set ` set (chunk addresses 30)) = set addresses"
    by (rule chunk_covers) simp
  finally show ?thesis by simp
qed

text \<open>
  Claim C3. Against a pairs subgraph whose tables have distinct ids, the loop of the
  orchestrator over the groups of at most 30 addresses, each asked with
  \<^verbatim>\<open>first: 30\<close> and merged into the map of the groups before it, gives the map
  that one request for all the addresses without the bound would give.
\<close>

theorem chunked_requests_equal_one_unbounded_request:
  assumes client: "infoClientWithChain env chainId =
      (\<lambda>addresses block. Inr (farmsBulk (Some 30) index addresses block))"
    and latest: "distinct (map id_farm (latestPairs index))"
    and older: "distinct (map id_farm (pairsAtBlock index blockWeekAgo))"
  shows "aprsForGroups env (chunk addresses 30) blockWeekAgo chainId Map.empty =
     Inr (aprsOfResponse (farmsBulk None index addresses blockWeekAgo))"
  by (simp add: chunked_groups [OF client latest older] aprs_unbounded)

theorem chunked_requests_equal_one_unbounded_request_witness:
  "infoClientWithChain env_pairs BITGERT =
      (\<lambda>addresses block. Inr (farmsBulk (Some 30) pairs_index addresses block))
   \<and> distinct (map id_farm (latestPairs pairs_index))
   \<and> distinct (map id_farm (pairsAtBlock pairs_index (Some 12345)))
   \<and> chunk addresses_31 30 = [take 30 addresses_31, [''0x31'']]
   \<and> aprsForGroups env_pairs (chunk addresses_31 30) (Some 12345) BITGERT Map.empty =
       Inr (aprsOfResponse (farmsBulk None pairs_index addresses_31 (Some 12345)))"
proof -
  have client: "infoClientWithChain env_pairs BITGERT =
      (\<lambda>addresses block. Inr (farmsBulk (Some 30) pairs_index addresses block))"
    by (simp add: env_pairs_def offline_def)
  have latest: "distinct (map id_farm (latestPairs pairs_index))"
    and older: "distinct (map id_farm (pairsAtBlock pairs_index (Some 12345)))"
    by (simp_all add: pairs_index_def)
  have groups: "chunk addresses_31 30 = [take 30 addresses_31, [''0x31'']]"
    by (simp add: chunk_step chunk_Nil addresses_31_def)
  have merged: "aprsForGroups env_pairs (chunk addresses_31 30) (Some 12345) BITGERT Map.empty =
       Inr (aprsOfResponse (farmsBulk None pairs_index addresses_31 (Some 12345)))"
    by (rule chunked_requests_equal_one_unbounded_request [OF client latest older])
  show ?thesis by (intro conjI; fact)
qed

section \<open>Keys of the written map\<close>

lemma upper_case_is_changed: "c \<in> set upperCaseLetters \<Longrightarrow> toLowerCase_char c \<noteq> c"
  by (auto simp: toLowerCase_char_def upperCaseLetters_def lowerCaseLetters_def)

lemma toLowerCase_changes:
  assumes "c \<in> set s" and "c \<in> set upperCaseLetters"
  shows "toLowerCase s \<noteq> s"
proof
  assume "toLowerCase s = s"
  then have "map toLowerCase_char s = map (\<lambda>x. x) s"
    by (simp add: toLowerCase_def)
  then have "toLowerCase_char c = c"
    using assms(1) by (simp only: map_eq_conv)
  with upper_case_is_changed [OF assms(2)] show False by simp
qed

lemma dom_stableAprsMap: "dom (stableAprsMap fs (map g fs)) = lpAddress ` set fs"
proof (rule set_eqI)
  fix a
  show "a \<in> dom (stableAprsMap fs (map g fs)) \<longleftrightarrow> a \<in> lpAddress ` set fs"
  proof (cases "find (\<lambda>f. lpAddress f = a) (rev fs)")
    case None
    then have "a \<notin> dom (stableAprsMap fs (map g fs))"
      by (simp add: stableAprsMap_lookup domIff)
    moreover from None have "a \<notin> lpAddress ` set fs"
      by (auto simp: find_None_iff)
    ultimately show ?thesis by simp
  next
    case (Some f)
    then have "f \<in> set fs \<and> lpAddress f = a"
      using find_Some_set [of "\<lambda>f. lpAddress f = a" "rev fs" f] by simp
    with Some show ?thesis
      by (auto simp: stableAprsMap_lookup domIff)
  qed
qed

lemma entryOf_defined: "entryOf index blockWeekAgo a \<noteq> None \<longleftrightarrow> a \<in> id_farm ` set (latestPairs index)"
proof (cases "find (\<lambda>f. id_farm f = a) (rev (latestPairs index))")
  case None
  then have "entryOf index blockWeekAgo a = None"
    by (simp add: entryOf_def)
  moreover from None have "a \<notin> id_farm ` set (latestPairs index)"
    by (auto simp: find_None_iff)
  ultimately show ?thesis by simp
next
  case (Some f)
  then have "f \<in> set (latestPairs index) \<and> id_farm f = a"
    using find_Some_set [of "\<lambda>f. id_farm f = a" "rev (latestPairs index)" f] by simp
  with Some show ?thesis
    by (auto simp: entryOf_def)
qed

text \<open>
  Claim C10. In the map written for a chain, the keys that come from normal farms
  are lower-cased LP addresses (those the pairs subgraph has a row for: the
  addresses are lower-cased before the request and the ids of the rows become the
  keys), and the keys that come from stable farms are the configured
  \<^verbatim>\<open>lpAddress\<close> strings as they stand. So a stable farm whose \<^verbatim>\<open>lpAddress\<close> has an
  upper-case letter is stored under a key that is not its lower-cased address.
\<close>

theorem normal_keys_lower_case_stable_keys_verbatim:
  assumes run: "updateChain env chainId w = (Inr allAprs, w')"
    and client: "infoClientWithChain env chainId =
      (\<lambda>addresses block. Inr (farmsBulk (Some 30) index addresses block))"
    and latest: "distinct (map id_farm (latestPairs index))"
    and older: "\<And>block. distinct (map id_farm (pairsAtBlock index block))"
    and split: "splitFarms (fst (getFarmConfig env chainId w)) = \<lparr>normalFarms = nFarms, stableFarms = sFarms\<rparr>"
  shows "dom allAprs =
       ((\<lambda>farm. toLowerCase (lpAddress farm)) ` set nFarms \<inter> id_farm ` set (latestPairs index))
       \<union> lpAddress ` set sFarms
     \<and> (\<forall>farm \<in> set sFarms. (\<exists>c \<in> set (lpAddress farm). c \<in> set upperCaseLetters) \<longrightarrow>
           lpAddress farm \<in> dom allAprs \<and> lpAddress farm \<noteq> toLowerCase (lpAddress farm))"
proof -
  let ?lower = "map (\<lambda>farm. toLowerCase (lpAddress farm)) nFarms"
  from updateChain_result [OF run] obtain blockWeekAgo normalAprs g where
    groups: "aprsForGroups env (chunk ?lower 30) blockWeekAgo chainId Map.empty = Inr normalAprs"
    and merged: "allAprs = normalAprs ++ stableAprsMap sFarms (map g sFarms)"
    unfolding split by auto
  from groups have normalAprs:
    "normalAprs = (\<lambda>a. if a \<in> set ?lower then entryOf index blockWeekAgo a else None)"
    by (simp add: chunked_groups [OF client latest older])
  have "dom normalAprs = set ?lower \<inter> id_farm ` set (latestPairs index)"
  proof (rule set_eqI)
    fix a
    show "a \<in> dom normalAprs \<longleftrightarrow> a \<in> set ?lower \<inter> id_farm ` set (latestPairs index)"
      using entryOf_defined [of index blockWeekAgo a] by (simp add: normalAprs domIff)
  qed
  then have keys: "dom allAprs =
       ((\<lambda>farm. toLowerCase (lpAddress farm)) ` set nFarms \<inter> id_farm ` set (latestPairs index))
       \<union> lpAddress ` set sFarms"
    by (auto simp: merged dom_stableAprsMap)
  have "lpAddress farm \<in> dom allAprs \<and> lpAddress farm \<noteq> toLowerCase (lpAddress farm)"
    if "farm \<in> set sFarms" and "\<exists>c \<in> set (lpAddress farm). c \<in> set upperCaseLetters" for farm
  proof -
    from that(2) obtain c where "c \<in> set (lpAddress farm)" and "c \<in> set upperCaseLetters"
      by blast
    then have "toLowerCase (lpAddress farm) \<noteq> lpAddress farm"
      by (rule toLowerCase_changes)
    with that(1) keys show ?thesis by auto
  qed
  with keys show ?thesis by blast
qed


lemma updateChain_succeeds:
  assumes "getBlockAtTimestamp env (weekAgoTimestamp env) chainId = Inr blockWeekAgo"
    and "aprsForGroups env
          (chunk (map (\<lambda>farm. toLowerCase (lpAddress farm))
                    (normalFarms (splitFarms (fst (getFarmConfig env chainId w))))) 30)
          blockWeekAgo chainId Map.empty = Inr normalAprs"
  shows "\<exists>allAprs w'. updateChain env chainId w = (Inr allAprs, w')"
  using assms unfolding updateChain_def
  by (simp add: split_def Let_def)

theorem normal_keys_lower_case_stable_keys_verbatim_witness:
  "infoClientWithChain env_subgraphs BITGERT =
      (\<lambda>addresses block. Inr (farmsBulk (Some 30) lp_index addresses block))
   \<and> distinct (map id_farm (latestPairs lp_index))
   \<and> splitFarms (fst (getFarmConfig env_subgraphs BITGERT initialWorld))
       = \<lparr>normalFarms = [farm_ice_usdt, farm_wcore_usdt], stableFarms = [farm_stable]\<rparr>
   \<and> farm_stable \<in> set [farm_stable]
   \<and> CHR ''E'' \<in> set (lpAddress farm_stable)
   \<and> CHR ''E'' \<in> set upperCaseLetters
   \<and> (\<exists>allAprs w'. updateChain env_subgraphs BITGERT initialWorld = (Inr allAprs, w')
        \<and> dom allAprs =
            {''0xf1a996efba43dcbd7945d2b91fa78420d9c23bf0'',
             ''0x5ebae3a840ff34b107d637c8ed07c3d1d2017178'',
             ''0x0eb9036cbE0f052386f36170c6b07eF0a0E3f710''}
        \<and> lpAddress farm_stable \<in> dom allAprs)
   \<and> lpAddress farm_stable \<noteq> toLowerCase (lpAddress farm_stable)"
proof -
  let ?env = env_subgraphs
  have client: "infoClientWithChain ?env BITGERT =
      (\<lambda>addresses block. Inr (farmsBulk (Some 30) lp_index addresses block))"
    by (simp add: env_subgraphs_def env_blocks_def offline_def)
  have latest: "distinct (map id_farm (latestPairs lp_index))"
    and older: "distinct (map id_farm (pairsAtBlock lp_index block))" for block
    by (simp_all add: lp_index_def)
  have config: "fst (getFarmConfig ?env BITGERT initialWorld) = [farm_ice_usdt, farm_wcore_usdt, farm_stable]"
    by (simp add: getFarmConfig_def env_subgraphs_def env_blocks_def offline_def
        farm_ice_usdt_def farm_wcore_usdt_def farm_stable_def)
  have split: "splitFarms (fst (getFarmConfig ?env BITGERT initialWorld))
       = \<lparr>normalFarms = [farm_ice_usdt, farm_wcore_usdt], stableFarms = [farm_stable]\<rparr>"
    unfolding config
    by (simp add: splitFarms_def splitNormalAndStableFarmsReducer_def hasStableSwapAddress_def
        farm_ice_usdt_def farm_wcore_usdt_def farm_stable_def)
  have member: "farm_stable \<in> set [farm_stable]"
    by simp
  have letter: "CHR ''E'' \<in> set (lpAddress farm_stable)"
    and upper: "CHR ''E'' \<in> set upperCaseLetters"
    by (simp_all add: farm_stable_def upperCaseLetters_def)
  have block: "getBlockAtTimestamp ?env (weekAgoTimestamp ?env) BITGERT = Inr (Some 12345)"
    by (simp add: getBlockAtTimestamp_def getBlockAtTimestamp_try_def env_subgraphs_def
        env_blocks_def offline_def blocksSubgraph_def blocksQuery_def example_net_def
        block_table_def parseInt10_def is_space_def is_digit_def digit_of_def)
  from updateChain_succeeds [OF block chunked_groups [OF client latest older]]
  obtain allAprs w' where run: "updateChain ?env BITGERT initialWorld = (Inr allAprs, w')"
    by blast
  note keys = normal_keys_lower_case_stable_keys_verbatim [OF run client latest older split]
  have lower: "(\<lambda>farm. toLowerCase (lpAddress farm)) ` set [farm_ice_usdt, farm_wcore_usdt] =
      {''0xf1a996efba43dcbd7945d2b91fa78420d9c23bf0'', ''0x5ebae3a840ff34b107d637c8ed07c3d1d2017178''}"
    by (simp add: toLowerCase_def toLowerCase_char_def upperCaseLetters_def lowerCaseLetters_def
        farm_ice_usdt_def farm_wcore_usdt_def)
  have ids: "id_farm ` set (latestPairs lp_index) =
      {''0xf1a996efba43dcbd7945d2b91fa78420d9c23bf0'', ''0x5ebae3a840ff34b107d637c8ed07c3d1d2017178''}"
    by (simp add: lp_index_def)
  have verbatim: "lpAddress ` set [farm_stable] = {''0x0eb9036cbE0f052386f36170c6b07eF0a0E3f710''}"
    by (simp add: farm_stable_def)
  from keys [THEN conjunct1] have dom: "dom allAprs =
            {''0xf1a996efba43dcbd7945d2b91fa78420d9c23bf0'',
             ''0x5ebae3a840ff34b107d637c8ed07c3d1d2017178'',
             ''0x0eb9036cbE0f052386f36170c6b07eF0a0E3f710''}"
    unfolding lower ids verbatim by auto
  from keys [THEN conjunct2] member letter upper
  have stable: "lpAddress farm_stable \<in> dom allAprs \<and> lpAddress farm_stable \<noteq> toLowerCase (lpAddress farm_stable)"
    by blast
  from run dom stable
  have result: "\<exists>allAprs w'. updateChain env_subgraphs BITGERT initialWorld = (Inr allAprs, w')
        \<and> dom allAprs =
            {''0xf1a996efba43dcbd7945d2b91fa78420d9c23bf0'',
             ''0x5ebae3a840ff34b107d637c8ed07c3d1d2017178'',
             ''0x0eb9036cbE0f052386f36170c6b07eF0a0E3f710''}
        \<and> lpAddress farm_stable \<in> dom allAprs"
    by blast
  from stable have differs: "lpAddress farm_stable \<noteq> toLowerCase (lpAddress farm_stable)"
    by simp
  show ?thesis by (intro conjI; fact)
qed

end
